theory Spec2Isabelle
  imports Complex_Main
begin

section \<open>The icon generator \<open>icons/create_icons.py\<close>\<close>

text \<open>
  The script writes \<open>icon16.png\<close>, \<open>icon48.png\<close> and \<open>icon128.png\<close> beside itself, either
  by asking cairosvg to rasterise \<open>icon.svg\<close> or by drawing a hawk and a key with PIL.
  The embedding follows the script function by function. The parameter \<open>size\<close> of the
  source is written \<open>sz\<close>, since \<open>size\<close> is a constant of HOL.
\<close>

subsection \<open>Python numbers and strings\<close>

text \<open>
  \<open>size / 128\<close> is a Python float and \<open>int(...)\<close> truncates it toward zero. The floats are
  modelled by real numbers. For the sizes the script uses (16, 48 and 128) the factor
  \<open>size / 128\<close> is 1/8, 3/8 or 1 and every product \<open>k * s\<close> is a small multiple of 1/8, so
  the double-precision results are the exact ones. The constant \<open>0.19\<close> is not a binary
  fraction: the double nearest to it exceeds 19/100 by less than \<open>3 * 10\<^sup>-\<^sup>1\<^sup>8\<close>, which changes
  no truncated product \<open>int(size * 0.19)\<close> for a size below \<open>2\<^sup>4\<^sup>0\<close>.
\<close>

definition py_int :: "real \<Rightarrow> int" where
  "py_int x = (if 0 \<le> x then \<lfloor>x\<rfloor> else \<lceil>x\<rceil>)"

definition digit_char :: "nat \<Rightarrow> char" where
  "digit_char d = ''0123456789'' ! d"

fun str_nat :: "nat \<Rightarrow> string" where
  "str_nat n = (if n < 10 then [digit_char n] else str_nat (n div 10) @ [digit_char (n mod 10)])"

declare str_nat.simps [simp del]

definition py_str :: "int \<Rightarrow> string" where
  "py_str i = (if i < 0 then ''-'' @ str_nat (nat (- i)) else str_nat (nat i))"

text \<open>\<open>os.path.join\<close> for a relative second component, as on a POSIX system.\<close>

definition path_join :: "string \<Rightarrow> string \<Rightarrow> string" where
  "path_join d f = (if d = [] then f else if last d = CHR ''/'' then d @ f else d @ ''/'' @ f)"

subsection \<open>Images and drawing calls of PIL\<close>

datatype error = ValueError | FileNotFoundError

type_synonym rgba = "nat \<times> nat \<times> nat \<times> nat"

type_synonym box = "int \<times> int \<times> int \<times> int"

record image =
  im_mode :: string
  im_size :: "int \<times> int"
  im_data :: "int \<times> int \<Rightarrow> rgba"

text \<open>\<open>Image.new(mode, (w, h), color)\<close>: every pixel has the given colour.\<close>

definition Image_new :: "string \<Rightarrow> int \<times> int \<Rightarrow> rgba \<Rightarrow> error + image" where
  "Image_new mode wh color =
     (if fst wh < 0 \<or> snd wh < 0 then Inl ValueError
      else Inr \<lparr>im_mode = mode, im_size = wh, im_data = (\<lambda>p. color)\<rparr>)"

definition in_canvas :: "image \<Rightarrow> int \<times> int \<Rightarrow> bool" where
  "in_canvas img p =
     (0 \<le> fst p \<and> fst p < fst (im_size img) \<and> 0 \<le> snd p \<and> snd p < snd (im_size img))"

definition hexval :: "char \<Rightarrow> nat option" where
  "hexval c = map_of
     [(CHR ''0'', 0), (CHR ''1'', 1), (CHR ''2'', 2), (CHR ''3'', 3), (CHR ''4'', 4),
      (CHR ''5'', 5), (CHR ''6'', 6), (CHR ''7'', 7), (CHR ''8'', 8), (CHR ''9'', 9),
      (CHR ''a'', 10), (CHR ''b'', 11), (CHR ''c'', 12), (CHR ''d'', 13), (CHR ''e'', 14),
      (CHR ''f'', 15), (CHR ''A'', 10), (CHR ''B'', 11), (CHR ''C'', 12), (CHR ''D'', 13),
      (CHR ''E'', 14), (CHR ''F'', 15)] c"

text \<open>
  The ink of a colour string on an RGBA image. The script passes colours of the form
  \<open>#rrggbb\<close> only; they are opaque (alpha 255). The other forms PIL accepts (names,
  \<open>#rgb\<close>, \<open>rgb(...)\<close>) never reach it from this script and are rejected here.
\<close>

definition getink :: "string \<Rightarrow> error + rgba" where
  "getink colour =
     (case colour of
        [h, r1, r0, g1, g0, b1, b0] \<Rightarrow>
          (case map hexval [r1, r0, g1, g0, b1, b0] of
             [Some a, Some b, Some c, Some d, Some e, Some f] \<Rightarrow>
               if h = CHR ''#'' then Inr (16 * a + b, 16 * c + d, 16 * e + f, 255)
               else Inl ValueError
           | _ \<Rightarrow> Inl ValueError)
      | _ \<Rightarrow> Inl ValueError)"

text \<open>
  The calls the script makes on its \<open>ImageDraw\<close> object, with the arguments it passes:
  \<open>rounded_rectangle(xy, radius=, fill=)\<close>, \<open>polygon(xy, fill=)\<close>, \<open>ellipse(xy, fill=)\<close>,
  \<open>ellipse(xy, outline=, width=)\<close> and \<open>rectangle(xy, fill=)\<close>.
\<close>

datatype draw_call =
    rounded_rectangle box int string
  | polygon "(int \<times> int) list" string
  | ellipse_fill box string
  | ellipse_outline box string int
  | rectangle box string

fun box_of :: "draw_call \<Rightarrow> box option" where
  "box_of (rounded_rectangle b r c) = Some b"
| "box_of (polygon ps c) = None"
| "box_of (ellipse_fill b c) = Some b"
| "box_of (ellipse_outline b c w) = Some b"
| "box_of (rectangle b c) = Some b"

fun colour_of :: "draw_call \<Rightarrow> string" where
  "colour_of (rounded_rectangle b r c) = c"
| "colour_of (polygon ps c) = c"
| "colour_of (ellipse_fill b c) = c"
| "colour_of (ellipse_outline b c w) = c"
| "colour_of (rectangle b c) = c"

fun coords_of :: "draw_call \<Rightarrow> int list" where
  "coords_of (rounded_rectangle (x0, y0, x1, y1) r c) = [x0, y0, x1, y1]"
| "coords_of (polygon ps c) = concat (map (\<lambda>p. [fst p, snd p]) ps)"
| "coords_of (ellipse_fill (x0, y0, x1, y1) c) = [x0, y0, x1, y1]"
| "coords_of (ellipse_outline (x0, y0, x1, y1) c w) = [x0, y0, x1, y1]"
| "coords_of (rectangle (x0, y0, x1, y1) c) = [x0, y0, x1, y1]"

text \<open>PIL requires \<open>x1 >= x0\<close> and \<open>y1 >= y0\<close> of a bounding box and raises ValueError otherwise.\<close>

fun box_ok :: "box \<Rightarrow> bool" where
  "box_ok (x0, y0, x1, y1) = (x0 \<le> x1 \<and> y0 \<le> y1)"

text \<open>
  Which pixels a call touches. A filled rectangle is its bounding box, both corners
  included. How PIL rasterises rounded corners, polygons and ellipses is not part of the
  script: it is the parameter \<open>R\<close>, and every result below holds for every \<open>R\<close>.
\<close>

type_synonym rasterizer = "draw_call \<Rightarrow> int \<times> int \<Rightarrow> bool"

fun covers :: "rasterizer \<Rightarrow> draw_call \<Rightarrow> int \<times> int \<Rightarrow> bool" where
  "covers R (rectangle (x0, y0, x1, y1) c) p =
     (x0 \<le> fst p \<and> fst p \<le> x1 \<and> y0 \<le> snd p \<and> snd p \<le> y1)"
| "covers R c p = R c p"

text \<open>Drawing replaces the covered pixels of the canvas by the ink; the rest is clipped.\<close>

definition paint :: "(int \<times> int \<Rightarrow> bool) \<Rightarrow> rgba \<Rightarrow> image \<Rightarrow> image" where
  "paint cov ink img =
     img\<lparr>im_data := (\<lambda>p. if in_canvas img p \<and> cov p then ink else im_data img p)\<rparr>"

definition draw :: "rasterizer \<Rightarrow> image \<Rightarrow> draw_call \<Rightarrow> error + image" where
  "draw R img c =
     (case getink (colour_of c) of
        Inl e \<Rightarrow> Inl e
      | Inr ink \<Rightarrow>
          (case box_of c of
             None \<Rightarrow> Inr (paint (covers R c) ink img)
           | Some b \<Rightarrow> if box_ok b then Inr (paint (covers R c) ink img) else Inl ValueError))"

fun draw_all :: "rasterizer \<Rightarrow> image \<Rightarrow> draw_call list \<Rightarrow> error + image" where
  "draw_all R img [] = Inr img"
| "draw_all R img (c # cs) =
     (case draw R img c of Inl e \<Rightarrow> Inl e | Inr img' \<Rightarrow> draw_all R img' cs)"

subsection \<open>\<open>create_hawk_icon_pil\<close>\<close>

definition radius :: "int \<Rightarrow> int" where
  "radius sz = py_int (real_of_int sz * 0.19)"

definition s :: "int \<Rightarrow> real" where
  "s sz = real_of_int sz / 128"

definition hawk_color :: string where
  "hawk_color = ''#f59e0b''"

definition head_points :: "int \<Rightarrow> (int \<times> int) list" where
  "head_points sz =
     [(py_int (85 * s sz), py_int (30 * s sz)),
      (py_int (100 * s sz), py_int (45 * s sz)),
      (py_int (90 * s sz), py_int (55 * s sz)),
      (py_int (75 * s sz), py_int (50 * s sz)),
      (py_int (65 * s sz), py_int (40 * s sz)),
      (py_int (70 * s sz), py_int (28 * s sz))]"

definition body_points :: "int \<Rightarrow> (int \<times> int) list" where
  "body_points sz =
     [(py_int (65 * s sz), py_int (40 * s sz)),
      (py_int (50 * s sz), py_int (55 * s sz)),
      (py_int (45 * s sz), py_int (75 * s sz)),
      (py_int (55 * s sz), py_int (90 * s sz)),
      (py_int (80 * s sz), py_int (85 * s sz)),
      (py_int (90 * s sz), py_int (70 * s sz)),
      (py_int (85 * s sz), py_int (55 * s sz)),
      (py_int (75 * s sz), py_int (50 * s sz))]"

definition eye_x :: "int \<Rightarrow> int" where
  "eye_x sz = py_int (82 * s sz)"

definition eye_y :: "int \<Rightarrow> int" where
  "eye_y sz = py_int (38 * s sz)"

definition eye_r :: "int \<Rightarrow> int" where
  "eye_r sz = max 2 (py_int (4 * s sz))"

definition key_color :: string where
  "key_color = ''#22c55e''"

definition key_y :: "int \<Rightarrow> int" where
  "key_y sz = py_int (95 * s sz)"

definition key_x :: "int \<Rightarrow> int" where
  "key_x sz = py_int (25 * s sz)"

definition key_r :: "int \<Rightarrow> int" where
  "key_r sz = max 3 (py_int (8 * s sz))"

definition key_w :: "int \<Rightarrow> int" where
  "key_w sz = max 2 (py_int (3 * s sz))"

definition shaft_start :: "int \<Rightarrow> int" where
  "shaft_start sz = key_x sz + key_r sz"

definition shaft_end :: "int \<Rightarrow> int" where
  "shaft_end sz = py_int (65 * s sz)"

definition tooth_w :: "int \<Rightarrow> int" where
  "tooth_w sz = max 2 (py_int (3 * s sz))"

definition tooth_h :: "int \<Rightarrow> int" where
  "tooth_h sz = max 3 (py_int (6 * s sz))"

text \<open>The drawing calls of the function body, in program order.\<close>

definition background :: "int \<Rightarrow> draw_call" where
  "background sz = rounded_rectangle (0, 0, sz - 1, sz - 1) (radius sz) ''#1e3a5f''"

definition head :: "int \<Rightarrow> draw_call" where
  "head sz = polygon (head_points sz) hawk_color"

definition body :: "int \<Rightarrow> draw_call" where
  "body sz = polygon (body_points sz) hawk_color"

definition eye :: "int \<Rightarrow> draw_call" where
  "eye sz = ellipse_fill
     (eye_x sz - eye_r sz, eye_y sz - eye_r sz, eye_x sz + eye_r sz, eye_y sz + eye_r sz)
     ''#0d1b2a''"

definition key_ring :: "int \<Rightarrow> draw_call" where
  "key_ring sz = ellipse_outline
     (key_x sz - key_r sz, key_y sz - key_r sz, key_x sz + key_r sz, key_y sz + key_r sz)
     key_color (key_w sz)"

definition key_shaft :: "int \<Rightarrow> draw_call" where
  "key_shaft sz = rectangle
     (shaft_start sz, key_y sz - key_w sz, shaft_end sz, key_y sz + key_w sz) key_color"

definition key_tooth1 :: "int \<Rightarrow> draw_call" where
  "key_tooth1 sz = rectangle
     (shaft_end sz - tooth_w sz * 3, key_y sz - key_w sz - tooth_h sz,
      shaft_end sz - tooth_w sz * 2, key_y sz - key_w sz) key_color"

definition key_tooth2 :: "int \<Rightarrow> draw_call" where
  "key_tooth2 sz = rectangle
     (shaft_end sz - tooth_w sz, key_y sz - key_w sz - tooth_h sz,
      shaft_end sz, key_y sz - key_w sz) key_color"

definition draw_calls :: "int \<Rightarrow> draw_call list" where
  "draw_calls sz =
     [background sz, head sz, body sz, eye sz,
      key_ring sz, key_shaft sz, key_tooth1 sz, key_tooth2 sz]"

definition create_hawk_icon_pil :: "rasterizer \<Rightarrow> int \<Rightarrow> error + image" where
  "create_hawk_icon_pil R sz =
     (case Image_new ''RGBA'' (sz, sz) (0, 0, 0, 0) of
        Inl e \<Rightarrow> Inl e
      | Inr img \<Rightarrow> draw_all R img (draw_calls sz))"

subsection \<open>The files and the output of a run\<close>

text \<open>
  A file is some data (such as the text of \<open>icon.svg\<close>), the PNG cairosvg renders from a
  file at a width and height, or the PNG encoding of a PIL image. The environment of a
  run is the outcome of \<open>import cairosvg\<close>, the directory of the script, the files and
  the lines printed so far. Calls of the libraries are followed where they succeed on
  their arguments: a failure inside cairosvg on the content of \<open>icon.svg\<close>, or of the
  operating system while a file is written, ends the run with a traceback and is outside
  this model.
\<close>

datatype file_data = Data string | SvgPng file_data int int | PilPng image

record env =
  HAS_CAIROSVG :: bool
  SCRIPT_DIR :: string
  files :: "string \<rightharpoonup> file_data"
  stdout :: "string list"

definition print :: "string \<Rightarrow> env \<Rightarrow> env" where
  "print msg e = e\<lparr>stdout := stdout e @ [msg]\<rparr>"

definition path_exists :: "env \<Rightarrow> string \<Rightarrow> bool" where
  "path_exists e path = (files e path \<noteq> None)"

definition icon_name :: "int \<Rightarrow> string" where
  "icon_name sz = ''icon'' @ py_str sz @ ''.png''"

definition sizes :: "int list" where
  "sizes = [16, 48, 128]"

subsection \<open>\<open>create_icons_from_svg\<close>\<close>

definition svg2png :: "string \<Rightarrow> string \<Rightarrow> int \<Rightarrow> int \<Rightarrow> env \<Rightarrow> error + env" where
  "svg2png url write_to output_width output_height e =
     (case files e url of
        None \<Rightarrow> Inl FileNotFoundError
      | Some f \<Rightarrow> Inr (e\<lparr>files := (files e)(write_to \<mapsto> SvgPng f output_width output_height)\<rparr>))"

fun svg_loop :: "string \<Rightarrow> int list \<Rightarrow> env \<Rightarrow> error + env" where
  "svg_loop svg_path [] e = Inr e"
| "svg_loop svg_path (sz # rest) e =
     (case svg2png svg_path (path_join (SCRIPT_DIR e) (icon_name sz)) sz sz e of
        Inl err \<Rightarrow> Inl err
      | Inr e' \<Rightarrow> svg_loop svg_path rest (print (''Created '' @ icon_name sz @ '' from SVG'') e'))"

definition create_icons_from_svg :: "env \<Rightarrow> error + bool \<times> env" where
  "create_icons_from_svg e =
     (let svg_path = path_join (SCRIPT_DIR e) ''icon.svg'' in
      if \<not> path_exists e svg_path
      then Inr (False, print (''SVG file not found: '' @ svg_path) e)
      else (case svg_loop svg_path sizes e of
              Inl err \<Rightarrow> Inl err
            | Inr e' \<Rightarrow> Inr (True, e')))"

subsection \<open>\<open>create_icons_with_pil\<close>\<close>

definition save :: "image \<Rightarrow> string \<Rightarrow> env \<Rightarrow> env" where
  "save icon output_path e = e\<lparr>files := (files e)(output_path \<mapsto> PilPng icon)\<rparr>"

fun pil_loop :: "rasterizer \<Rightarrow> int list \<Rightarrow> env \<Rightarrow> error + env" where
  "pil_loop R [] e = Inr e"
| "pil_loop R (sz # rest) e =
     (case create_hawk_icon_pil R sz of
        Inl err \<Rightarrow> Inl err
      | Inr icon \<Rightarrow>
          pil_loop R rest
            (print (''Created '' @ icon_name sz @ '' using PIL'')
               (save icon (path_join (SCRIPT_DIR e) (icon_name sz)) e)))"

definition create_icons_with_pil :: "rasterizer \<Rightarrow> env \<Rightarrow> error + bool \<times> env" where
  "create_icons_with_pil R e =
     (case pil_loop R sizes e of Inl err \<Rightarrow> Inl err | Inr e' \<Rightarrow> Inr (True, e'))"

subsection \<open>\<open>main\<close>\<close>

definition main :: "rasterizer \<Rightarrow> env \<Rightarrow> error + env" where
  "main R e0 =
     (let e = print ''Creating BlueHawk API Key Finder icons...'' e0;
          finish = (\<lambda>r. case r of
                      Inl err \<Rightarrow> Inl err
                    | Inr (b, e') \<Rightarrow> Inr (print ''Done! Icons created successfully.'' e'))
      in if HAS_CAIROSVG e
         then (case create_icons_from_svg e of
                 Inl err \<Rightarrow> Inl err
               | Inr (success, e') \<Rightarrow>
                   if \<not> success
                   then finish (create_icons_with_pil R (print ''Falling back to PIL...'' e'))
                   else finish (Inr (success, e')))
         else finish (create_icons_with_pil R e))"

subsection \<open>Measuring calls and pixels\<close>

text \<open>The alpha channel of a pixel, and the extent of a bounding box.\<close>

fun alpha :: "rgba \<Rightarrow> nat" where
  "alpha (r, g, b, a) = a"

fun box_width :: "box \<Rightarrow> int" where
  "box_width (x0, y0, x1, y1) = x1 - x0"

fun box_height :: "box \<Rightarrow> int" where
  "box_height (x0, y0, x1, y1) = y1 - y0"

fun width_of :: "draw_call \<Rightarrow> int option" where
  "width_of (ellipse_outline b c w) = Some w"
| "width_of c = None"

subsection \<open>The normalised shapes\<close>

text \<open>
  The two silhouettes as lists of vertices in the 128-unit coordinate space (the
  numbers written in \<open>head_points\<close> and \<open>body_points\<close>), and a vertex scaled by
  \<open>size/128\<close> and truncated to integers. They state what the drawn polygons are compared
  with; the script itself is \<open>head_points\<close> and \<open>body_points\<close> above.
\<close>

definition truncation :: "real \<Rightarrow> int" where
  "truncation r = (if 0 \<le> r then 1 else - 1) * \<lfloor>\<bar>r\<bar>\<rfloor>"

definition scaled_vertex :: "int \<Rightarrow> int \<times> int \<Rightarrow> int \<times> int" where
  "scaled_vertex sz v =
     (truncation (real_of_int (fst v) * real_of_int sz / 128),
      truncation (real_of_int (snd v) * real_of_int sz / 128))"

definition head_normalized :: "(int \<times> int) list" where
  "head_normalized = [(85, 30), (100, 45), (90, 55), (75, 50), (65, 40), (70, 28)]"

definition body_normalized :: "(int \<times> int) list" where
  "body_normalized =
     [(65, 40), (50, 55), (45, 75), (55, 90), (80, 85), (90, 70), (85, 55), (75, 50)]"

subsection \<open>Outcomes of a run\<close>

text \<open>
  What a run leaves behind, written out for the statements below. After the procedural
  path: the three icons as PIL images \<open>i16\<close>, \<open>i48\<close>, \<open>i128\<close>, and on the output the
  opening line, the lines \<open>said\<close> by the vector path before it gave up, one line for each
  icon and the closing line. After the vector path: the three renderings of the file \<open>f\<close>
  by cairosvg and its lines.
\<close>

definition pil_result :: "env \<Rightarrow> string list \<Rightarrow> image \<Rightarrow> image \<Rightarrow> image \<Rightarrow> env" where
  "pil_result e said i16 i48 i128 = e\<lparr>
     files := (files e)
       (path_join (SCRIPT_DIR e) ''icon16.png'' \<mapsto> PilPng i16,
        path_join (SCRIPT_DIR e) ''icon48.png'' \<mapsto> PilPng i48,
        path_join (SCRIPT_DIR e) ''icon128.png'' \<mapsto> PilPng i128),
     stdout := stdout e @ [''Creating BlueHawk API Key Finder icons...''] @ said @
       [''Created icon16.png using PIL'', ''Created icon48.png using PIL'',
        ''Created icon128.png using PIL'', ''Done! Icons created successfully.'']\<rparr>"

definition svg_result :: "env \<Rightarrow> file_data \<Rightarrow> env" where
  "svg_result e f = e\<lparr>
     files := (files e)
       (path_join (SCRIPT_DIR e) ''icon16.png'' \<mapsto> SvgPng f 16 16,
        path_join (SCRIPT_DIR e) ''icon48.png'' \<mapsto> SvgPng f 48 48,
        path_join (SCRIPT_DIR e) ''icon128.png'' \<mapsto> SvgPng f 128 128),
     stdout := stdout e @
       [''Creating BlueHawk API Key Finder icons...'', ''Created icon16.png from SVG'',
        ''Created icon48.png from SVG'', ''Created icon128.png from SVG'',
        ''Done! Icons created successfully.'']\<rparr>"

section \<open>Properties\<close>

subsection \<open>Evaluation of the geometry and the colours\<close>

lemmas hawk_defs =
  radius_def s_def head_points_def body_points_def eye_x_def eye_y_def eye_r_def
  key_y_def key_x_def key_r_def key_w_def shaft_start_def shaft_end_def tooth_w_def
  tooth_h_def py_int_def

lemmas call_defs =
  background_def head_def body_def eye_def key_ring_def key_shaft_def key_tooth1_def
  key_tooth2_def

lemma sizes_cases: "sz \<in> set sizes \<Longrightarrow> sz = 16 \<or> sz = 48 \<or> sz = 128"
  by (simp add: sizes_def)

lemma getink_opaque: "getink c = Inr ink \<Longrightarrow> alpha ink = 255"
  by (auto simp: getink_def split: list.splits option.splits if_splits)

lemma getink_colours:
  "getink ''#1e3a5f'' = Inr (30, 58, 95, 255)"
  "getink hawk_color = Inr (245, 158, 11, 255)"
  "getink ''#0d1b2a'' = Inr (13, 27, 42, 255)"
  "getink key_color = Inr (34, 197, 94, 255)"
  by (simp_all add: getink_def hexval_def hawk_color_def key_color_def)

subsection \<open>Clamped dimensions\<close>

text \<open>
  Claim C3. The eye radius is at least 2, the radius of the key ring at least 3, the
  outline width of the ring and the half-thickness of the shaft (\<open>key_w\<close>) at least 2, the
  tooth width at least 2 and the tooth height at least 3, at every size. These are the
  extents of the boxes that are drawn: the eye and the ring are \<open>2 * r\<close> wide, the shaft is
  \<open>2 * key_w\<close> high, each tooth is \<open>tooth_w\<close> wide and \<open>tooth_h\<close> high. At size 16, where
  \<open>4 * s\<close>, \<open>3 * s\<close> and \<open>6 * s\<close> truncate to 0 and \<open>8 * s\<close> to 1, the clamped values are
  2, 3, 2, 2 and 3.
\<close>

theorem clamped_minimums:
  "2 \<le> eye_r sz \<and> 3 \<le> key_r sz \<and> 2 \<le> key_w sz \<and> 2 \<le> tooth_w sz \<and> 3 \<le> tooth_h sz
   \<and> map_option box_width (box_of (eye sz)) = Some (2 * eye_r sz)
   \<and> map_option box_height (box_of (eye sz)) = Some (2 * eye_r sz)
   \<and> map_option box_width (box_of (key_ring sz)) = Some (2 * key_r sz)
   \<and> map_option box_height (box_of (key_ring sz)) = Some (2 * key_r sz)
   \<and> width_of (key_ring sz) = Some (key_w sz)
   \<and> map_option box_height (box_of (key_shaft sz)) = Some (2 * key_w sz)
   \<and> map_option box_width (box_of (key_tooth1 sz)) = Some (tooth_w sz)
   \<and> map_option box_height (box_of (key_tooth1 sz)) = Some (tooth_h sz)
   \<and> map_option box_width (box_of (key_tooth2 sz)) = Some (tooth_w sz)
   \<and> map_option box_height (box_of (key_tooth2 sz)) = Some (tooth_h sz)
   \<and> py_int (4 * s 16) = 0 \<and> py_int (8 * s 16) = 1 \<and> py_int (3 * s 16) = 0
   \<and> py_int (6 * s 16) = 0
   \<and> eye_r 16 = 2 \<and> key_r 16 = 3 \<and> key_w 16 = 2 \<and> tooth_w 16 = 2 \<and> tooth_h 16 = 3"
  by (simp add: eye_r_def key_r_def key_w_def tooth_w_def tooth_h_def call_defs s_def
      py_int_def)

subsection \<open>Drawing on a canvas\<close>

text \<open>
  A call that succeeds keeps the size and the mode of the image and changes exactly the
  covered pixels of the canvas; a sequence of calls leaves, at each pixel, the ink of the
  last call that covers it.
\<close>

lemma draw_frame:
  "draw R img c = Inr img' \<Longrightarrow> im_size img' = im_size img \<and> im_mode img' = im_mode img"
  by (auto simp: draw_def paint_def split: sum.splits option.splits if_splits)

lemma draw_in_canvas: "draw R img c = Inr img' \<Longrightarrow> in_canvas img' p = in_canvas img p"
  by (simp add: in_canvas_def draw_frame)

lemma draw_pixel:
  "draw R img c = Inr img' \<Longrightarrow>
   im_data img' p = (if in_canvas img p \<and> covers R c p then projr (getink (colour_of c)) else im_data img p)"
  by (auto simp: draw_def paint_def split: sum.splits option.splits if_splits)

lemma draw_all_frame:
  "draw_all R img cs = Inr img' \<Longrightarrow> im_size img' = im_size img \<and> im_mode img' = im_mode img"
proof (induction cs arbitrary: img)
  case Nil
  then show ?case by simp
next
  case (Cons c cs)
  then obtain mid where mid: "draw R img c = Inr mid" and rest: "draw_all R mid cs = Inr img'"
    by (auto split: sum.splits)
  from Cons.IH [OF rest] draw_frame [OF mid] show ?case by simp
qed

lemma draw_all_in_canvas: "draw_all R img cs = Inr img' \<Longrightarrow> in_canvas img' p = in_canvas img p"
  by (simp add: in_canvas_def draw_all_frame)

lemma draw_all_untouched:
  "draw_all R img cs = Inr img' \<Longrightarrow> \<forall>d \<in> set cs. \<not> covers R d p \<Longrightarrow> im_data img' p = im_data img p"
proof (induction cs arbitrary: img)
  case Nil
  then show ?case by simp
next
  case (Cons c cs)
  then obtain mid where mid: "draw R img c = Inr mid" and rest: "draw_all R mid cs = Inr img'"
    by (auto split: sum.splits)
  have "im_data img' p = im_data mid p"
    using Cons.IH [OF rest] Cons.prems(2) by simp
  also have "im_data mid p = im_data img p"
    using draw_pixel [OF mid, of p] Cons.prems(2) by simp
  finally show ?case .
qed

lemma draw_all_last:
  "draw_all R img (xs @ c # ys) = Inr img' \<Longrightarrow> in_canvas img p \<Longrightarrow> covers R c p \<Longrightarrow>
   \<forall>d \<in> set ys. \<not> covers R d p \<Longrightarrow> Inr (im_data img' p) = getink (colour_of c)"
proof (induction xs arbitrary: img)
  case Nil
  then obtain mid where mid: "draw R img c = Inr mid" and rest: "draw_all R mid ys = Inr img'"
    by (auto split: sum.splits)
  have "im_data img' p = im_data mid p"
    using draw_all_untouched [OF rest] Nil.prems(4) by simp
  moreover obtain ink where ink: "getink (colour_of c) = Inr ink"
    using mid by (auto simp: draw_def split: sum.splits)
  ultimately show ?case
    using draw_pixel [OF mid, of p] Nil.prems(2,3) by simp
next
  case (Cons x xs)
  then obtain mid where mid: "draw R img x = Inr mid"
    and rest: "draw_all R mid (xs @ c # ys) = Inr img'"
    by (auto split: sum.splits)
  show ?case
    using Cons.IH [OF rest _ Cons.prems(3,4)] Cons.prems(2) draw_in_canvas [OF mid, of p] by simp
qed

lemma draw_alpha:
  assumes "draw R img c = Inr img'"
  shows "alpha (im_data img' p) = (if in_canvas img p \<and> covers R c p then 255 else alpha (im_data img p))"
proof -
  obtain ink where ink: "getink (colour_of c) = Inr ink"
    using assms by (auto simp: draw_def split: sum.splits)
  show ?thesis
    using draw_pixel [OF assms, of p] getink_opaque [OF ink] ink by simp
qed

lemma draw_all_stays_opaque:
  "draw_all R img cs = Inr img' \<Longrightarrow> alpha (im_data img p) = 255 \<Longrightarrow> alpha (im_data img' p) = 255"
proof (induction cs arbitrary: img)
  case Nil
  then show ?case by simp
next
  case (Cons x cs)
  then obtain mid where mid: "draw R img x = Inr mid" and rest: "draw_all R mid cs = Inr img'"
    by (auto split: sum.splits)
  have "alpha (im_data mid p) = 255"
    using draw_alpha [OF mid, of p] Cons.prems(2) by simp
  then show ?case by (rule Cons.IH [OF rest])
qed

lemma draw_all_opaque:
  assumes "draw_all R img cs = Inr img'" and "c \<in> set cs" and "in_canvas img p"
    and "covers R c p"
  shows "alpha (im_data img' p) = 255"
  using assms
proof (induction cs arbitrary: img)
  case Nil
  then show ?case by simp
next
  case (Cons x cs)
  then obtain mid where mid: "draw R img x = Inr mid" and rest: "draw_all R mid cs = Inr img'"
    by (auto split: sum.splits)
  show ?case
  proof (cases "x = c")
    case True
    then have "alpha (im_data mid p) = 255"
      using draw_alpha [OF mid, of p] Cons.prems(3,4) by simp
    then show ?thesis by (rule draw_all_stays_opaque [OF rest])
  next
    case False
    then have "c \<in> set cs" using Cons.prems(2) by simp
    moreover have "in_canvas mid p"
      using draw_in_canvas [OF mid, of p] Cons.prems(3) by simp
    ultimately show ?thesis
      using Cons.IH [OF rest] Cons.prems(4) by simp
  qed
qed

lemma draw_succeeds:
  assumes "getink (colour_of c) = Inr ink" and "\<forall>b. box_of c = Some b \<longrightarrow> box_ok b"
  shows "draw R img c = Inr (paint (covers R c) ink img)"
  using assms by (cases "box_of c") (simp_all add: draw_def)

lemma draw_all_succeeds:
  "\<forall>c \<in> set cs. (\<exists>ink. getink (colour_of c) = Inr ink) \<and> (\<forall>b. box_of c = Some b \<longrightarrow> box_ok b) \<Longrightarrow>
   \<exists>img'. draw_all R img cs = Inr img'"
proof (induction cs arbitrary: img)
  case Nil
  then show ?case by simp
next
  case (Cons c cs)
  then obtain ink where "getink (colour_of c) = Inr ink" and "\<forall>b. box_of c = Some b \<longrightarrow> box_ok b"
    by auto
  then have "draw R img c = Inr (paint (covers R c) ink img)"
    by (rule draw_succeeds)
  with Cons show ?case by simp
qed

lemma calls_ok:
  "sz \<in> set sizes \<Longrightarrow> c \<in> set (draw_calls sz) \<Longrightarrow>
   (\<exists>ink. getink (colour_of c) = Inr ink) \<and> (\<forall>b. box_of c = Some b \<longrightarrow> box_ok b)"
  by (auto dest!: sizes_cases simp: draw_calls_def call_defs hawk_defs getink_colours)

lemma create_hawk_icon_pil_succeeds:
  assumes "sz \<in> set sizes"
  shows "\<exists>img. create_hawk_icon_pil R sz = Inr img \<and> im_size img = (sz, sz) \<and> im_mode img = ''RGBA''"
proof -
  from assms have "0 \<le> sz" by (auto dest: sizes_cases)
  then have new: "Image_new ''RGBA'' (sz, sz) (0, 0, 0, 0) = Inr \<lparr>im_mode = ''RGBA'', im_size = (sz, sz), im_data = (\<lambda>p. (0, 0, 0, 0))\<rparr>"
    by (simp add: Image_new_def)
  obtain img where img: "draw_all R \<lparr>im_mode = ''RGBA'', im_size = (sz, sz), im_data = (\<lambda>p. (0, 0, 0, 0))\<rparr> (draw_calls sz) = Inr img"
    using draw_all_succeeds [of "draw_calls sz"] calls_ok [OF assms] by blast
  show ?thesis
    using new img draw_all_frame [OF img] by (simp add: create_hawk_icon_pil_def)
qed

subsection \<open>Scaled polygon vertices\<close>

lemma py_int_truncation: "py_int x = truncation x"
  by (simp add: py_int_def truncation_def ceiling_def abs_if)

text \<open>
  Claim C4. For every size in 16, 48, 128 the head and the body polygon are drawn at the
  vertices of the normalised lists, each scaled by \<open>size/128\<close> and truncated to integers;
  as all coordinates are non-negative, the truncation is the integer quotient by 128.
\<close>

theorem polygon_vertices_scaled:
  "\<forall>sz \<in> set sizes.
     head sz = polygon (map (scaled_vertex sz) head_normalized) hawk_color
     \<and> body sz = polygon (map (scaled_vertex sz) body_normalized) hawk_color
     \<and> (\<forall>v \<in> set (head_normalized @ body_normalized).
          scaled_vertex sz v = ((fst v * sz) div 128, (snd v * sz) div 128))"
proof
  fix sz assume "sz \<in> set sizes"
  then have sz: "sz = 16 \<or> sz = 48 \<or> sz = 128" by (rule sizes_cases)
  have h: "head sz = polygon (map (scaled_vertex sz) head_normalized) hawk_color"
    by (simp add: head_def head_points_def head_normalized_def scaled_vertex_def
        py_int_truncation s_def)
  have b: "body sz = polygon (map (scaled_vertex sz) body_normalized) hawk_color"
    by (simp add: body_def body_points_def body_normalized_def scaled_vertex_def
        py_int_truncation s_def)
  have d: "\<forall>v \<in> set (head_normalized @ body_normalized).
          scaled_vertex sz v = ((fst v * sz) div 128, (snd v * sz) div 128)"
    using sz by (auto simp: head_normalized_def body_normalized_def scaled_vertex_def truncation_def)
  from h b d show "head sz = polygon (map (scaled_vertex sz) head_normalized) hawk_color
     \<and> body sz = polygon (map (scaled_vertex sz) body_normalized) hawk_color
     \<and> (\<forall>v \<in> set (head_normalized @ body_normalized).
          scaled_vertex sz v = ((fst v * sz) div 128, (snd v * sz) div 128))" by simp
qed

theorem polygon_vertices_scaled_witness:
  "head 16 = polygon [(10, 3), (12, 5), (11, 6), (9, 6), (8, 5), (8, 3)] ''#f59e0b''
   \<and> body 48 = polygon [(24, 15), (18, 20), (16, 28), (20, 33), (30, 31), (33, 26), (31, 20), (28, 18)] ''#f59e0b''
   \<and> scaled_vertex 16 (85, 30) = (10, 3)"
  using polygon_vertices_scaled
  by (simp add: sizes_def head_normalized_def body_normalized_def hawk_color_def)

subsection \<open>Bounding boxes\<close>

text \<open>
  Claim C10. For every size in 16, 48, 128: every bounding box passed to a drawing call
  has \<open>x0 \<le> x1\<close> and \<open>y0 \<le> y1\<close>, every coordinate of every call (box corners and
  polygon vertices) lies in \<open>[0, size - 1]\<close>, the shaft starts at \<open>key_x + key_r\<close>, which
  does not exceed its end \<open>int(65 * s)\<close>, and both tooth boxes have positive width and
  height.
\<close>

theorem boxes_in_bounds:
  "\<forall>sz \<in> set sizes.
     (\<forall>c \<in> set (draw_calls sz).
        (\<forall>b. box_of c = Some b \<longrightarrow> box_ok b) \<and> (\<forall>v \<in> set (coords_of c). 0 \<le> v \<and> v \<le> sz - 1))
     \<and> shaft_start sz = key_x sz + key_r sz \<and> shaft_end sz = py_int (65 * s sz)
     \<and> shaft_start sz \<le> shaft_end sz
     \<and> (\<exists>b. box_of (key_tooth1 sz) = Some b \<and> 0 < box_width b \<and> 0 < box_height b)
     \<and> (\<exists>b. box_of (key_tooth2 sz) = Some b \<and> 0 < box_width b \<and> 0 < box_height b)"
  by (auto dest!: sizes_cases simp: draw_calls_def call_defs hawk_defs)

theorem boxes_in_bounds_witness:
  "map coords_of (draw_calls 16) =
     [[0, 0, 15, 15], [10, 3, 12, 5, 11, 6, 9, 6, 8, 5, 8, 3],
      [8, 5, 6, 6, 5, 9, 6, 11, 10, 10, 11, 8, 10, 6, 9, 6], [8, 2, 12, 6],
      [0, 8, 6, 14], [6, 9, 8, 13], [2, 6, 4, 9], [6, 6, 8, 9]]
   \<and> (6::int) \<le> 8 \<and> shaft_start 16 = 6 \<and> shaft_end 16 = 8
   \<and> box_of (key_tooth1 16) = Some (2, 6, 4, 9) \<and> box_ok (2, 6, 4, 9)"
  using boxes_in_bounds [rule_format, of 16]
  by (simp add: sizes_def draw_calls_def call_defs hawk_defs)

subsection \<open>Background and silhouette colours\<close>

text \<open>
  Claim C5, as stated, asks for a corner radius equal to \<open>0.19 * size\<close>. The script passes
  \<open>int(size * 0.19)\<close>: at size 16 the radius is 3, not 3.04.
\<close>

theorem radius_not_exact_counterexample:
  "background 16 = rounded_rectangle (0, 0, 15, 15) 3 ''#1e3a5f'' \<and> real_of_int 3 \<noteq> 0.19 * real_of_int 16"
  by (simp add: background_def radius_def py_int_def)

text \<open>
  Claim C5, amended. For every size in 16, 48, 128 the first call draws a rounded
  rectangle over the box from \<open>(0, 0)\<close> to \<open>(size - 1, size - 1)\<close>, which is the whole
  canvas, with corner radius \<open>0.19 * size\<close> truncated to an integer and fill \<open>#1e3a5f\<close>
  (the opaque colour 30, 58, 95); the two silhouette polygons are filled with \<open>#f59e0b\<close>
  (245, 158, 11).
\<close>

theorem background_and_silhouette:
  "\<forall>sz \<in> set sizes.
     hd (draw_calls sz) = background sz
     \<and> background sz = rounded_rectangle (0, 0, sz - 1, sz - 1) (truncation (0.19 * real_of_int sz)) ''#1e3a5f''
     \<and> getink ''#1e3a5f'' = Inr (30, 58, 95, 255)
     \<and> (\<forall>p. (\<exists>canvas. Image_new ''RGBA'' (sz, sz) (0, 0, 0, 0) = Inr canvas \<and> in_canvas canvas p)
            = (0 \<le> fst p \<and> fst p \<le> sz - 1 \<and> 0 \<le> snd p \<and> snd p \<le> sz - 1))
     \<and> head sz = polygon (head_points sz) ''#f59e0b''
     \<and> body sz = polygon (body_points sz) ''#f59e0b''
     \<and> getink ''#f59e0b'' = Inr (245, 158, 11, 255)"
  using getink_colours
  by (auto dest!: sizes_cases simp: draw_calls_def background_def head_def body_def radius_def py_int_truncation hawk_color_def
    Image_new_def in_canvas_def mult.commute)

theorem background_and_silhouette_witness:
  "background 16 = rounded_rectangle (0, 0, 15, 15) 3 ''#1e3a5f''
   \<and> background 48 = rounded_rectangle (0, 0, 47, 47) 9 ''#1e3a5f''
   \<and> background 128 = rounded_rectangle (0, 0, 127, 127) 24 ''#1e3a5f''
   \<and> colour_of (head 16) = ''#f59e0b'' \<and> colour_of (body 16) = ''#f59e0b''"
  using background_and_silhouette [rule_format, of 16] background_and_silhouette [rule_format, of 48] background_and_silhouette [rule_format, of 128]
  by (simp add: sizes_def truncation_def)

subsection \<open>The loops over the three sizes\<close>

lemma icon_names:
  "icon_name 16 = ''icon16.png''" "icon_name 48 = ''icon48.png''" "icon_name 128 = ''icon128.png''"
  by (simp_all add: icon_name_def py_str_def str_nat.simps digit_char_def)

lemma path_join_eq: "path_join d f = path_join d g \<longleftrightarrow> f = g"
  by (simp add: path_join_def)

lemma pil_loop_sizes:
  assumes "create_hawk_icon_pil R 16 = Inr i16" and "create_hawk_icon_pil R 48 = Inr i48"
    and "create_hawk_icon_pil R 128 = Inr i128"
  shows "pil_loop R sizes e = Inr (e\<lparr>
     files := (files e)
       (path_join (SCRIPT_DIR e) ''icon16.png'' \<mapsto> PilPng i16,
        path_join (SCRIPT_DIR e) ''icon48.png'' \<mapsto> PilPng i48,
        path_join (SCRIPT_DIR e) ''icon128.png'' \<mapsto> PilPng i128),
     stdout := stdout e @
       [''Created icon16.png using PIL'', ''Created icon48.png using PIL'',
        ''Created icon128.png using PIL'']\<rparr>)"
  using assms by (simp add: sizes_def icon_names save_def print_def)

lemma svg_loop_sizes:
  assumes "files e (path_join (SCRIPT_DIR e) ''icon.svg'') = Some f"
  shows "svg_loop (path_join (SCRIPT_DIR e) ''icon.svg'') sizes e = Inr (e\<lparr>
     files := (files e)
       (path_join (SCRIPT_DIR e) ''icon16.png'' \<mapsto> SvgPng f 16 16,
        path_join (SCRIPT_DIR e) ''icon48.png'' \<mapsto> SvgPng f 48 48,
        path_join (SCRIPT_DIR e) ''icon128.png'' \<mapsto> SvgPng f 128 128),
     stdout := stdout e @
       [''Created icon16.png from SVG'', ''Created icon48.png from SVG'',
        ''Created icon128.png from SVG'']\<rparr>)"
  using assms by (simp add: sizes_def icon_names svg2png_def print_def path_join_eq)

lemma icons_exist:
  "\<exists>i16 i48 i128. create_hawk_icon_pil R 16 = Inr i16 \<and> create_hawk_icon_pil R 48 = Inr i48
     \<and> create_hawk_icon_pil R 128 = Inr i128"
  using create_hawk_icon_pil_succeeds [of 16 R] create_hawk_icon_pil_succeeds [of 48 R]
    create_hawk_icon_pil_succeeds [of 128 R]
  by (auto simp: sizes_def)

lemma main_without_cairosvg:
  assumes "\<not> HAS_CAIROSVG e"
    and "create_hawk_icon_pil R 16 = Inr i16" and "create_hawk_icon_pil R 48 = Inr i48"
    and "create_hawk_icon_pil R 128 = Inr i128"
  shows "main R e = Inr (pil_result e [] i16 i48 i128)"
  using assms(1) pil_loop_sizes [OF assms(2-4)]
  by (simp add: main_def create_icons_with_pil_def print_def pil_result_def)

lemma from_svg_missing:
  assumes "files e (path_join (SCRIPT_DIR e) ''icon.svg'') = None"
  shows "create_icons_from_svg e =
    Inr (False, e\<lparr>stdout := stdout e @ [''SVG file not found: '' @ path_join (SCRIPT_DIR e) ''icon.svg'']\<rparr>)"
  using assms by (simp add: create_icons_from_svg_def path_exists_def print_def)

lemma main_svg_missing:
  assumes "HAS_CAIROSVG e" and "files e (path_join (SCRIPT_DIR e) ''icon.svg'') = None"
    and "create_hawk_icon_pil R 16 = Inr i16" and "create_hawk_icon_pil R 48 = Inr i48"
    and "create_hawk_icon_pil R 128 = Inr i128"
  shows "main R e = Inr (pil_result e
     [''SVG file not found: '' @ path_join (SCRIPT_DIR e) ''icon.svg'', ''Falling back to PIL...'']
     i16 i48 i128)"
  using assms(1,2) pil_loop_sizes [OF assms(3-5)]
  by (simp add: main_def create_icons_with_pil_def print_def pil_result_def from_svg_missing)

lemma main_svg_present:
  assumes "HAS_CAIROSVG e" and "files e (path_join (SCRIPT_DIR e) ''icon.svg'') = Some f"
  shows "main R e = Inr (e\<lparr>
     files := (files e)
       (path_join (SCRIPT_DIR e) ''icon16.png'' \<mapsto> SvgPng f 16 16,
        path_join (SCRIPT_DIR e) ''icon48.png'' \<mapsto> SvgPng f 48 48,
        path_join (SCRIPT_DIR e) ''icon128.png'' \<mapsto> SvgPng f 128 128),
     stdout := stdout e @
       [''Creating BlueHawk API Key Finder icons...'', ''Created icon16.png from SVG'',
        ''Created icon48.png from SVG'', ''Created icon128.png from SVG'',
        ''Done! Icons created successfully.'']\<rparr>)"
proof -
  let ?e = "print ''Creating BlueHawk API Key Finder icons...'' e"
  have "files ?e (path_join (SCRIPT_DIR ?e) ''icon.svg'') = Some f"
    using assms(2) by (simp add: print_def)
  from svg_loop_sizes [OF this] assms show ?thesis
    by (simp add: main_def create_icons_from_svg_def path_exists_def print_def)
qed

lemma pil_files:
  assumes "sz \<in> set sizes" and "create_hawk_icon_pil R 16 = Inr i16"
    and "create_hawk_icon_pil R 48 = Inr i48" and "create_hawk_icon_pil R 128 = Inr i128"
  shows "map_option Inr (files (pil_result e said i16 i48 i128)
           (path_join (SCRIPT_DIR e) (icon_name sz)))
         = Some (map_sum id PilPng (create_hawk_icon_pil R sz))"
  using sizes_cases [OF assms(1)] assms(2-4)
  by (auto simp: pil_result_def icon_names path_join_eq)

subsection \<open>Dispatch between the two paths\<close>

text \<open>
  Claim C1. In every run the three icons can be drawn, and: without cairosvg, \<open>main\<close> runs
  the procedural path directly (its result is that of the procedural path, with no line
  of the vector path); with cairosvg but without \<open>icon.svg\<close> in the script directory,
  \<open>create_icons_from_svg\<close> returns False and the procedural path then runs; with cairosvg
  and \<open>icon.svg\<close>, the vector path writes all three icons from that file, and neither a
  file nor an output line of the procedural path appears.
\<close>

theorem dispatch:
  "\<exists>i16 i48 i128.
     create_hawk_icon_pil R 16 = Inr i16 \<and> create_hawk_icon_pil R 48 = Inr i48
     \<and> create_hawk_icon_pil R 128 = Inr i128
     \<and> (\<not> HAS_CAIROSVG e \<longrightarrow> main R e = Inr (pil_result e [] i16 i48 i128))
     \<and> (HAS_CAIROSVG e \<and> \<not> path_exists e (path_join (SCRIPT_DIR e) ''icon.svg'') \<longrightarrow>
          map_sum id fst
            (create_icons_from_svg (print ''Creating BlueHawk API Key Finder icons...'' e))
            = Inr False
          \<and> main R e = Inr (pil_result e
               [''SVG file not found: '' @ path_join (SCRIPT_DIR e) ''icon.svg'',
                ''Falling back to PIL...''] i16 i48 i128))
     \<and> (HAS_CAIROSVG e \<and> path_exists e (path_join (SCRIPT_DIR e) ''icon.svg'') \<longrightarrow>
          (\<exists>f. files e (path_join (SCRIPT_DIR e) ''icon.svg'') = Some f
             \<and> main R e = Inr (svg_result e f)))"
proof -
  obtain i16 i48 i128 where icons: "create_hawk_icon_pil R 16 = Inr i16"
    "create_hawk_icon_pil R 48 = Inr i48" "create_hawk_icon_pil R 128 = Inr i128"
    using icons_exist by blast
  have a: "\<not> HAS_CAIROSVG e \<longrightarrow> main R e = Inr (pil_result e [] i16 i48 i128)"
    using main_without_cairosvg [OF _ icons] by simp
  have b: "HAS_CAIROSVG e \<and> \<not> path_exists e (path_join (SCRIPT_DIR e) ''icon.svg'') \<longrightarrow>
          map_sum id fst
            (create_icons_from_svg (print ''Creating BlueHawk API Key Finder icons...'' e))
            = Inr False
          \<and> main R e = Inr (pil_result e
               [''SVG file not found: '' @ path_join (SCRIPT_DIR e) ''icon.svg'',
                ''Falling back to PIL...''] i16 i48 i128)"
    using main_svg_missing [OF _ _ icons, of e]
    by (simp add: path_exists_def create_icons_from_svg_def print_def)
  have c: "HAS_CAIROSVG e \<and> path_exists e (path_join (SCRIPT_DIR e) ''icon.svg'') \<longrightarrow>
          (\<exists>f. files e (path_join (SCRIPT_DIR e) ''icon.svg'') = Some f
             \<and> main R e = Inr (svg_result e f))"
    using main_svg_present [of e _ R] by (auto simp: path_exists_def svg_result_def)
  from icons a b c show ?thesis by blast
qed

theorem dispatch_witness:
  "(\<exists>e'. main (\<lambda>c p. False)
        \<lparr>HAS_CAIROSVG = False, SCRIPT_DIR = ''/ext/icons'', files = Map.empty, stdout = []\<rparr>
        = Inr e'
      \<and> stdout e' =
          [''Creating BlueHawk API Key Finder icons...'', ''Created icon16.png using PIL'',
           ''Created icon48.png using PIL'', ''Created icon128.png using PIL'',
           ''Done! Icons created successfully.''])
   \<and> (\<exists>e'. main (\<lambda>c p. False)
        \<lparr>HAS_CAIROSVG = True, SCRIPT_DIR = ''/ext/icons'', files = Map.empty, stdout = []\<rparr>
        = Inr e'
      \<and> stdout e' =
          [''Creating BlueHawk API Key Finder icons...'',
           ''SVG file not found: /ext/icons/icon.svg'', ''Falling back to PIL...'',
           ''Created icon16.png using PIL'', ''Created icon48.png using PIL'',
           ''Created icon128.png using PIL'', ''Done! Icons created successfully.''])
   \<and> (\<exists>e'. main (\<lambda>c p. False)
        \<lparr>HAS_CAIROSVG = True, SCRIPT_DIR = ''/ext/icons'',
          files = [''/ext/icons/icon.svg'' \<mapsto> Data ''<svg/>''], stdout = []\<rparr>
        = Inr e'
      \<and> files e' ''/ext/icons/icon16.png'' = Some (SvgPng (Data ''<svg/>'') 16 16)
      \<and> files e' ''/ext/icons/icon48.png'' = Some (SvgPng (Data ''<svg/>'') 48 48)
      \<and> files e' ''/ext/icons/icon128.png'' = Some (SvgPng (Data ''<svg/>'') 128 128)
      \<and> stdout e' =
          [''Creating BlueHawk API Key Finder icons...'', ''Created icon16.png from SVG'',
           ''Created icon48.png from SVG'', ''Created icon128.png from SVG'',
           ''Done! Icons created successfully.''])"
  using
    dispatch [of "\<lambda>c p. False"
      "\<lparr>HAS_CAIROSVG = False, SCRIPT_DIR = ''/ext/icons'', files = Map.empty, stdout = []\<rparr>"]
    dispatch [of "\<lambda>c p. False"
      "\<lparr>HAS_CAIROSVG = True, SCRIPT_DIR = ''/ext/icons'', files = Map.empty, stdout = []\<rparr>"]
    dispatch [of "\<lambda>c p. False"
      "\<lparr>HAS_CAIROSVG = True, SCRIPT_DIR = ''/ext/icons'',
        files = [''/ext/icons/icon.svg'' \<mapsto> Data ''<svg/>''], stdout = []\<rparr>"]
  by (auto simp: pil_result_def svg_result_def path_join_def path_exists_def)

text \<open>
  Claim C7. When \<open>icon.svg\<close> is absent, \<open>create_icons_from_svg\<close> returns False, raises
  nothing and leaves the files as they were; in \<open>main\<close> with cairosvg the run then calls
  \<open>create_icons_with_pil\<close>, which succeeds, and \<open>main\<close> ends normally.
\<close>

theorem missing_svg_not_fatal:
  assumes "\<not> path_exists e (path_join (SCRIPT_DIR e) ''icon.svg'')"
  shows "(\<exists>e'. create_icons_from_svg e = Inr (False, e') \<and> files e' = files e)
     \<and> (HAS_CAIROSVG e \<longrightarrow>
          (\<exists>e1 e2.
             create_icons_from_svg (print ''Creating BlueHawk API Key Finder icons...'' e)
               = Inr (False, e1)
             \<and> files e1 = files e
             \<and> create_icons_with_pil R (print ''Falling back to PIL...'' e1) = Inr (True, e2)
             \<and> main R e = Inr (print ''Done! Icons created successfully.'' e2)))"
proof -
  let ?e = "print ''Creating BlueHawk API Key Finder icons...'' e"
  have none: "files e (path_join (SCRIPT_DIR e) ''icon.svg'') = None"
    using assms by (simp add: path_exists_def)
  then have none': "files ?e (path_join (SCRIPT_DIR ?e) ''icon.svg'') = None"
    by (simp add: print_def)
  obtain i16 i48 i128 where icons: "create_hawk_icon_pil R 16 = Inr i16"
    "create_hawk_icon_pil R 48 = Inr i48" "create_hawk_icon_pil R 128 = Inr i128"
    using icons_exist by blast
  have first: "\<exists>e'. create_icons_from_svg e = Inr (False, e') \<and> files e' = files e"
    using from_svg_missing [OF none] by simp
  have second: "\<exists>e1 e2. create_icons_from_svg ?e = Inr (False, e1)
             \<and> files e1 = files e
             \<and> create_icons_with_pil R (print ''Falling back to PIL...'' e1) = Inr (True, e2)
             \<and> main R e = Inr (print ''Done! Icons created successfully.'' e2)"
    if "HAS_CAIROSVG e"
    using that from_svg_missing [OF none'] pil_loop_sizes [OF icons]
    by (simp add: main_def create_icons_with_pil_def print_def)
  from first second show ?thesis by blast
qed

theorem missing_svg_not_fatal_witness:
  "\<not> path_exists
       \<lparr>HAS_CAIROSVG = True, SCRIPT_DIR = ''/ext/icons'', files = Map.empty, stdout = []\<rparr>
       ''/ext/icons/icon.svg''
   \<and> create_icons_from_svg
       \<lparr>HAS_CAIROSVG = True, SCRIPT_DIR = ''/ext/icons'', files = Map.empty, stdout = []\<rparr>
       = Inr (False, \<lparr>HAS_CAIROSVG = True, SCRIPT_DIR = ''/ext/icons'', files = Map.empty,
                      stdout = [''SVG file not found: /ext/icons/icon.svg'']\<rparr>)
   \<and> (\<exists>e'. main (\<lambda>c p. False)
         \<lparr>HAS_CAIROSVG = True, SCRIPT_DIR = ''/ext/icons'', files = Map.empty, stdout = []\<rparr>
         = Inr e')"
  using missing_svg_not_fatal
    [of "\<lparr>HAS_CAIROSVG = True, SCRIPT_DIR = ''/ext/icons'', files = Map.empty, stdout = []\<rparr>"
        "\<lambda>c p. False"]
  by (auto simp: path_join_def path_exists_def create_icons_from_svg_def print_def)

subsection \<open>Determinism of the procedural icons\<close>

text \<open>
  Claim C6. The drawn image is a function of the size (and of the drawing library) alone:
  in two runs from any two environments that agree on the availability of cairosvg and
  on the presence of \<open>icon.svg\<close> and take the procedural path, \<open>main\<close> succeeds and, for
  every size in 16, 48, 128, both runs store the same image
  \<open>create_hawk_icon_pil size\<close>, whatever else the environments contain.
\<close>

theorem procedural_output_deterministic:
  assumes "HAS_CAIROSVG e1 = HAS_CAIROSVG e2"
    and "path_exists e1 (path_join (SCRIPT_DIR e1) ''icon.svg'')
         = path_exists e2 (path_join (SCRIPT_DIR e2) ''icon.svg'')"
    and "\<not> (HAS_CAIROSVG e1 \<and> path_exists e1 (path_join (SCRIPT_DIR e1) ''icon.svg''))"
  shows "\<exists>r1 r2. main R e1 = Inr r1 \<and> main R e2 = Inr r2
     \<and> (\<forall>sz \<in> set sizes. \<exists>img.
          create_hawk_icon_pil R sz = Inr img
          \<and> files r1 (path_join (SCRIPT_DIR e1) (icon_name sz)) = Some (PilPng img)
          \<and> files r2 (path_join (SCRIPT_DIR e2) (icon_name sz)) = Some (PilPng img))"
proof -
  obtain i16 i48 i128 where icons: "create_hawk_icon_pil R 16 = Inr i16"
    "create_hawk_icon_pil R 48 = Inr i48" "create_hawk_icon_pil R 128 = Inr i128"
    using icons_exist by blast
  have run: "\<exists>said. main R e = Inr (pil_result e said i16 i48 i128)"
    if "\<not> (HAS_CAIROSVG e \<and> path_exists e (path_join (SCRIPT_DIR e) ''icon.svg''))" for e
  proof (cases "HAS_CAIROSVG e")
    case False
    then show ?thesis using main_without_cairosvg [OF _ icons] by blast
  next
    case True
    with that have "files e (path_join (SCRIPT_DIR e) ''icon.svg'') = None"
      by (simp add: path_exists_def)
    with True show ?thesis using main_svg_missing [OF _ _ icons] by blast
  qed
  from run [of e1] assms(3) obtain said1 where
    r1: "main R e1 = Inr (pil_result e1 said1 i16 i48 i128)" by blast
  from run [of e2] assms obtain said2 where
    r2: "main R e2 = Inr (pil_result e2 said2 i16 i48 i128)" by auto
  have "\<exists>img. create_hawk_icon_pil R sz = Inr img
          \<and> files (pil_result e1 said1 i16 i48 i128) (path_join (SCRIPT_DIR e1) (icon_name sz))
              = Some (PilPng img)
          \<and> files (pil_result e2 said2 i16 i48 i128) (path_join (SCRIPT_DIR e2) (icon_name sz))
              = Some (PilPng img)"
    if "sz \<in> set sizes" for sz
    using pil_files [OF that icons, of e1 said1] pil_files [OF that icons, of e2 said2]
      sizes_cases [OF that] icons
    by auto
  with r1 r2 show ?thesis by blast
qed

theorem procedural_output_deterministic_witness:
  "\<exists>r1 r2 img.
     main (\<lambda>c p. True)
       \<lparr>HAS_CAIROSVG = False, SCRIPT_DIR = ''/a'', files = Map.empty, stdout = []\<rparr> = Inr r1
     \<and> main (\<lambda>c p. True)
       \<lparr>HAS_CAIROSVG = False, SCRIPT_DIR = ''/b'',
         files = [''/b/icon16.png'' \<mapsto> Data ''old''], stdout = [''earlier'']\<rparr> = Inr r2
     \<and> create_hawk_icon_pil (\<lambda>c p. True) 16 = Inr img
     \<and> files r1 ''/a/icon16.png'' = Some (PilPng img)
     \<and> files r2 ''/b/icon16.png'' = Some (PilPng img)"
  using procedural_output_deterministic
    [of "\<lparr>HAS_CAIROSVG = False, SCRIPT_DIR = ''/a'', files = Map.empty, stdout = []\<rparr>"
        "\<lparr>HAS_CAIROSVG = False, SCRIPT_DIR = ''/b'',
          files = [''/b/icon16.png'' \<mapsto> Data ''old''], stdout = [''earlier'']\<rparr>"
        "\<lambda>c p. True"]
  by (auto simp: path_exists_def path_join_def sizes_def icon_names)

subsection \<open>Canvas and written size\<close>

text \<open>
  Claim C2. For every size in 16, 48, 128: the canvas the procedural path creates is an
  RGBA image of \<open>size\<close> by \<open>size\<close> pixels, all of them (0, 0, 0, 0); the icon is drawn on
  that canvas; and the image stored as \<open>icon{size}.png\<close> in the script directory is that
  icon, of width and height \<open>size\<close>.
\<close>

theorem canvas_and_written_size:
  "\<forall>sz \<in> set sizes. \<exists>canvas icon e'.
     Image_new ''RGBA'' (sz, sz) (0, 0, 0, 0) = Inr canvas
     \<and> im_mode canvas = ''RGBA'' \<and> im_size canvas = (sz, sz)
     \<and> (\<forall>p. im_data canvas p = (0, 0, 0, 0))
     \<and> create_hawk_icon_pil R sz = draw_all R canvas (draw_calls sz)
     \<and> create_hawk_icon_pil R sz = Inr icon
     \<and> create_icons_with_pil R e = Inr (True, e')
     \<and> files e' (path_join (SCRIPT_DIR e) (icon_name sz)) = Some (PilPng icon)
     \<and> im_size icon = (sz, sz)"
proof
  fix sz assume sz: "sz \<in> set sizes"
  let ?canvas = "\<lparr>im_mode = ''RGBA'', im_size = (sz, sz), im_data = (\<lambda>p. (0, 0, 0, 0))\<rparr>"
  from sz have "0 \<le> sz" by (auto dest: sizes_cases)
  then have new: "Image_new ''RGBA'' (sz, sz) (0, 0, 0, 0) = Inr ?canvas"
    by (simp add: Image_new_def)
  obtain i16 i48 i128 where icons: "create_hawk_icon_pil R 16 = Inr i16"
    "create_hawk_icon_pil R 48 = Inr i48" "create_hawk_icon_pil R 128 = Inr i128"
    using icons_exist by blast
  obtain icon where icon: "create_hawk_icon_pil R sz = Inr icon" "im_size icon = (sz, sz)"
    using create_hawk_icon_pil_succeeds [OF sz] by blast
  let ?e' = "e\<lparr>
     files := (files e)
       (path_join (SCRIPT_DIR e) ''icon16.png'' \<mapsto> PilPng i16,
        path_join (SCRIPT_DIR e) ''icon48.png'' \<mapsto> PilPng i48,
        path_join (SCRIPT_DIR e) ''icon128.png'' \<mapsto> PilPng i128),
     stdout := stdout e @
       [''Created icon16.png using PIL'', ''Created icon48.png using PIL'',
        ''Created icon128.png using PIL'']\<rparr>"
  have loop: "create_icons_with_pil R e = Inr (True, ?e')"
    using pil_loop_sizes [OF icons] by (simp add: create_icons_with_pil_def)
  have written: "files ?e' (path_join (SCRIPT_DIR e) (icon_name sz)) = Some (PilPng icon)"
    using sizes_cases [OF sz] icons icon(1) by (auto simp: icon_names path_join_eq)
  have body: "create_hawk_icon_pil R sz = draw_all R ?canvas (draw_calls sz)"
    using new by (simp add: create_hawk_icon_pil_def)
  from new body icon loop written
  show "\<exists>canvas icon e'.
     Image_new ''RGBA'' (sz, sz) (0, 0, 0, 0) = Inr canvas
     \<and> im_mode canvas = ''RGBA'' \<and> im_size canvas = (sz, sz)
     \<and> (\<forall>p. im_data canvas p = (0, 0, 0, 0))
     \<and> create_hawk_icon_pil R sz = draw_all R canvas (draw_calls sz)
     \<and> create_hawk_icon_pil R sz = Inr icon
     \<and> create_icons_with_pil R e = Inr (True, e')
     \<and> files e' (path_join (SCRIPT_DIR e) (icon_name sz)) = Some (PilPng icon)
     \<and> im_size icon = (sz, sz)"
    by (intro exI [of _ ?canvas] exI [of _ icon] exI [of _ ?e']) simp
qed

theorem canvas_and_written_size_witness:
  "\<exists>icon e'.
     Image_new ''RGBA'' (16, 16) (0, 0, 0, 0)
       = Inr \<lparr>im_mode = ''RGBA'', im_size = (16, 16), im_data = (\<lambda>p. (0, 0, 0, 0))\<rparr>
     \<and> create_icons_with_pil (\<lambda>c p. True)
         \<lparr>HAS_CAIROSVG = False, SCRIPT_DIR = ''/a'', files = Map.empty, stdout = []\<rparr>
         = Inr (True, e')
     \<and> files e' ''/a/icon16.png'' = Some (PilPng icon) \<and> im_size icon = (16, 16)"
  using canvas_and_written_size
    [of "\<lambda>c p. True"
        "\<lparr>HAS_CAIROSVG = False, SCRIPT_DIR = ''/a'', files = Map.empty, stdout = []\<rparr>"]
  by (auto simp: sizes_def icon_names path_join_def Image_new_def)

subsection \<open>The icon is not empty\<close>

text \<open>
  Claim C9. For every size in 16, 48, 128 the drawn image has a pixel of nonzero alpha,
  however the library rasterises the curved shapes; and every pixel of the canvas that
  the background fill covers is opaque in the finished image.
\<close>

theorem icon_not_transparent:
  "\<forall>sz \<in> set sizes. \<exists>img.
     create_hawk_icon_pil R sz = Inr img
     \<and> (\<exists>p. in_canvas img p \<and> alpha (im_data img p) \<noteq> 0)
     \<and> (\<forall>p. in_canvas img p \<and> covers R (background sz) p \<longrightarrow> alpha (im_data img p) = 255)"
proof
  fix sz assume sz: "sz \<in> set sizes"
  let ?canvas = "\<lparr>im_mode = ''RGBA'', im_size = (sz, sz), im_data = (\<lambda>p. (0, 0, 0, 0))\<rparr>"
  let ?p = "(shaft_start sz, key_y sz)"
  obtain img where img: "create_hawk_icon_pil R sz = Inr img" "im_size img = (sz, sz)"
    using create_hawk_icon_pil_succeeds [OF sz] by blast
  from sz have "0 \<le> sz" by (auto dest: sizes_cases)
  then have all: "draw_all R ?canvas (draw_calls sz) = Inr img"
    using img(1) by (simp add: create_hawk_icon_pil_def Image_new_def)
  have canvas: "in_canvas ?canvas p = in_canvas img p" for p
    by (simp add: in_canvas_def img(2))
  have inside: "in_canvas ?canvas ?p" and shaft: "covers R (key_shaft sz) ?p"
    using sizes_cases [OF sz] by (auto simp: in_canvas_def key_shaft_def hawk_defs)
  have "key_shaft sz \<in> set (draw_calls sz)"
    by (simp add: draw_calls_def)
  then have "alpha (im_data img ?p) = 255"
    using draw_all_opaque [OF all _ inside shaft] by blast
  then have some: "\<exists>p. in_canvas img p \<and> alpha (im_data img p) \<noteq> 0"
    using inside canvas by (intro exI [of _ ?p]) simp
  have "background sz \<in> set (draw_calls sz)"
    by (simp add: draw_calls_def)
  then have bg: "\<forall>p. in_canvas img p \<and> covers R (background sz) p \<longrightarrow> alpha (im_data img p) = 255"
    using draw_all_opaque [OF all] canvas by blast
  from img(1) some bg
  show "\<exists>img. create_hawk_icon_pil R sz = Inr img
     \<and> (\<exists>p. in_canvas img p \<and> alpha (im_data img p) \<noteq> 0)
     \<and> (\<forall>p. in_canvas img p \<and> covers R (background sz) p \<longrightarrow> alpha (im_data img p) = 255)"
    by blast
qed

theorem icon_not_transparent_witness:
  "\<exists>img. create_hawk_icon_pil (\<lambda>c p. True) 16 = Inr img
     \<and> in_canvas img (0, 0) \<and> covers (\<lambda>c p. True) (background 16) (0, 0)
     \<and> alpha (im_data img (0, 0)) = 255"
proof -
  obtain img where img: "create_hawk_icon_pil (\<lambda>c p. True) 16 = Inr img"
    and bg: "\<forall>p. in_canvas img p \<and> covers (\<lambda>c p. True) (background 16) p
               \<longrightarrow> alpha (im_data img p) = 255"
    using icon_not_transparent [of "\<lambda>c p. True"] by (auto simp: sizes_def)
  have "im_size img = (16, 16)"
    using create_hawk_icon_pil_succeeds [of 16 "\<lambda>c p. True"] img by (simp add: sizes_def)
  then have "in_canvas img (0, 0)" by (simp add: in_canvas_def)
  moreover have "covers (\<lambda>c p. True) (background 16) (0, 0)" by (simp add: background_def)
  ultimately show ?thesis using img bg by blast
qed

subsection \<open>Drawing order\<close>

text \<open>
  Claim C8. For every size the calls are made in the order background (rounded
  rectangle), head polygon, body polygon, eye (filled ellipse), key ring (outlined
  ellipse), shaft, first tooth, second tooth (rectangles); and this order is back to
  front: a pixel of the finished image shows the ink of the last call that covers it.
\<close>

theorem z_order:
  "draw_calls sz =
     [background sz, head sz, body sz, eye sz,
      key_ring sz, key_shaft sz, key_tooth1 sz, key_tooth2 sz]
   \<and> (\<exists>r. background sz = rounded_rectangle (0, 0, sz - 1, sz - 1) r ''#1e3a5f'')
   \<and> head sz = polygon (head_points sz) hawk_color
   \<and> body sz = polygon (body_points sz) hawk_color
   \<and> (\<exists>b. eye sz = ellipse_fill b ''#0d1b2a'')
   \<and> (\<exists>b. key_ring sz = ellipse_outline b key_color (key_w sz))
   \<and> (\<exists>b. key_shaft sz = rectangle b key_color)
   \<and> (\<exists>b. key_tooth1 sz = rectangle b key_color)
   \<and> (\<exists>b. key_tooth2 sz = rectangle b key_color)
   \<and> (\<forall>img i p. create_hawk_icon_pil R sz = Inr img \<and> i < length (draw_calls sz)
         \<and> in_canvas img p \<and> covers R (draw_calls sz ! i) p
         \<and> (\<forall>d \<in> set (drop (Suc i) (draw_calls sz)). \<not> covers R d p)
         \<longrightarrow> Inr (im_data img p) = getink (colour_of (draw_calls sz ! i)))"
proof -
  have order: "\<forall>img i p. create_hawk_icon_pil R sz = Inr img \<and> i < length (draw_calls sz)
         \<and> in_canvas img p \<and> covers R (draw_calls sz ! i) p
         \<and> (\<forall>d \<in> set (drop (Suc i) (draw_calls sz)). \<not> covers R d p)
         \<longrightarrow> Inr (im_data img p) = getink (colour_of (draw_calls sz ! i))"
  proof (intro allI impI, elim conjE)
    fix img i p
    assume img: "create_hawk_icon_pil R sz = Inr img" and i: "i < length (draw_calls sz)"
      and p: "in_canvas img p" and cov: "covers R (draw_calls sz ! i) p"
      and later: "\<forall>d \<in> set (drop (Suc i) (draw_calls sz)). \<not> covers R d p"
    from img obtain canvas where new: "Image_new ''RGBA'' (sz, sz) (0, 0, 0, 0) = Inr canvas"
      and all: "draw_all R canvas (draw_calls sz) = Inr img"
      by (auto simp: create_hawk_icon_pil_def split: sum.splits)
    have parts: "take i (draw_calls sz) @ draw_calls sz ! i # drop (Suc i) (draw_calls sz)
        = draw_calls sz"
      using i by (simp add: id_take_nth_drop [symmetric])
    have "in_canvas canvas p"
      using draw_all_in_canvas [OF all, of p] p by simp
    then show "Inr (im_data img p) = getink (colour_of (draw_calls sz ! i))"
      using draw_all_last [of R canvas "take i (draw_calls sz)" "draw_calls sz ! i"
          "drop (Suc i) (draw_calls sz)" img p] cov later all parts
      by simp
  qed
  have names: "draw_calls sz =
     [background sz, head sz, body sz, eye sz,
      key_ring sz, key_shaft sz, key_tooth1 sz, key_tooth2 sz]
   \<and> (\<exists>r. background sz = rounded_rectangle (0, 0, sz - 1, sz - 1) r ''#1e3a5f'')
   \<and> head sz = polygon (head_points sz) hawk_color
   \<and> body sz = polygon (body_points sz) hawk_color
   \<and> (\<exists>b. eye sz = ellipse_fill b ''#0d1b2a'')
   \<and> (\<exists>b. key_ring sz = ellipse_outline b key_color (key_w sz))
   \<and> (\<exists>b. key_shaft sz = rectangle b key_color)
   \<and> (\<exists>b. key_tooth1 sz = rectangle b key_color)
   \<and> (\<exists>b. key_tooth2 sz = rectangle b key_color)"
    by (simp add: draw_calls_def call_defs)
  from names order show ?thesis by blast
qed

theorem z_order_witness:
  "\<exists>img. create_hawk_icon_pil (\<lambda>c p. True) 16 = Inr img
     \<and> im_data img (7, 11) = (34, 197, 94, 255)
     \<and> im_data img (0, 0) = (34, 197, 94, 255)"
proof -
  obtain img where img: "create_hawk_icon_pil (\<lambda>c p. True) 16 = Inr img"
    and size: "im_size img = (16, 16)"
    using create_hawk_icon_pil_succeeds [of 16 "\<lambda>c p. True"] by (auto simp: sizes_def)
  have order: "\<forall>i p. i < length (draw_calls 16)
         \<and> in_canvas img p \<and> covers (\<lambda>c p. True) (draw_calls 16 ! i) p
         \<and> (\<forall>d \<in> set (drop (Suc i) (draw_calls 16)). \<not> covers (\<lambda>c p. True) d p)
         \<longrightarrow> Inr (im_data img p) = getink (colour_of (draw_calls 16 ! i))"
    using z_order [of 16 "\<lambda>c p. True"] img by blast
  have shaft: "Inr (im_data img (7, 11)) = getink (colour_of (draw_calls 16 ! 5))"
    using order [rule_format, of 5 "(7, 11)"] size
    by (simp add: draw_calls_def call_defs hawk_defs in_canvas_def)
  have ring: "Inr (im_data img (0, 0)) = getink (colour_of (draw_calls 16 ! 4))"
    using order [rule_format, of 4 "(0, 0)"] size
    by (simp add: draw_calls_def call_defs hawk_defs in_canvas_def)
  from shaft ring img show ?thesis
    by (simp add: draw_calls_def call_defs getink_colours)
qed

end
